theory Spec2Isabelle
  imports Main
begin

section \<open>JavaScript values and completions\<close>

text \<open>
  The handles of this repository return nothing, a boolean, or whatever the underlying
  host component returns. Only the truthiness of a value (for \<open>||\<close>) and whether it is
  nullish (for \<open>??\<close> and \<open>?.\<close>) matter to the code.
\<close>

datatype jsval = JUndefined | JNull | JBool bool

fun truthy :: "jsval \<Rightarrow> bool" where
  "truthy JUndefined = False"
| "truthy JNull = False"
| "truthy (JBool b) = b"

fun nullish :: "jsval \<Rightarrow> bool" where
  "nullish JUndefined = True"
| "nullish JNull = True"
| "nullish (JBool b) = False"

datatype exn = TypeError | NativeError string

text \<open>A call either throws (\<open>Inl\<close>) or returns a value (\<open>Inr\<close>).\<close>

type_synonym completion = "exn + jsval"

section \<open>The underlying text input behind a ref\<close>

text \<open>
  \<open>textInputRef\<close> of a wrapper, and the fallback refs of the application, point to a
  \<open>TextInput\<close> instance owned by the host framework. The record says what each of its
  methods does when it is called. \<open>clear\<close> and \<open>setNativeProps\<close> are reached through
  \<open>?.()\<close> in the wrapper, so they may be absent (\<open>None\<close>).
\<close>

record text_input =
  focus_m :: completion
  clear_m :: "completion option"
  setNativeProps_m :: "completion option"
  isFocused_m :: completion

datatype ucall = UFocus | UClear | USetNativeProps string string | UIsFocused

type_synonym effect = "completion \<times> ucall list"

text \<open>\<open>obj?.m?.(args)\<close> on an object that is there: call \<open>m\<close> when it exists.\<close>

definition opt_call :: "completion option \<Rightarrow> ucall \<Rightarrow> effect" where
  "opt_call m c = (case m of None \<Rightarrow> (Inr JUndefined, []) | Some r \<Rightarrow> (r, [c]))"

text \<open>\<open>ref.current?.rest\<close>: the whole chain is \<open>undefined\<close> when \<open>current\<close> is null.\<close>

definition opt_chain :: "text_input option \<Rightarrow> (text_input \<Rightarrow> effect) \<Rightarrow> effect" where
  "opt_chain cur f = (case cur of None \<Rightarrow> (Inr JUndefined, []) | Some i \<Rightarrow> f i)"

text \<open>\<open>a || b\<close>: \<open>b\<close> is evaluated only when \<open>a\<close> returned a falsy value.\<close>

definition js_or :: "effect \<Rightarrow> effect \<Rightarrow> effect" where
  "js_or a b =
     (case fst a of
        Inl e \<Rightarrow> (Inl e, snd a)
      | Inr v \<Rightarrow> if truthy v then (Inr v, snd a) else (fst b, snd a @ snd b))"

text \<open>\<open>a ?? d\<close> with a constant default \<open>d\<close>.\<close>

definition js_nullish_or :: "effect \<Rightarrow> jsval \<Rightarrow> effect" where
  "js_nullish_or a d =
     (case fst a of
        Inl e \<Rightarrow> (Inl e, snd a)
      | Inr v \<Rightarrow> if nullish v then (Inr d, snd a) else (Inr v, snd a))"

section \<open>The child wrapper and its imperative handle\<close>

text \<open>
  The legacy wrapper and the Fabric wrapper (\<open>specs/JSINewArchitecture/NativeTextInput.tsx\<close>)
  build the same handle with \<open>useImperativeHandle\<close>:
  \<^verbatim>\<open>
  focus: () => textInputRef.current?.focus(),
  clear: () => textInputRef.current?.clear?.() ||
               textInputRef.current?.setNativeProps?.({ text: '' }),
  isFocused: () => textInputRef.current?.isFocused() ?? false,
  isNativeComponentAvailable: () => isNativeAvailable,
  \<close>
\<close>

datatype slot = Legacy | Fabric

record wrapper =
  textInputRef :: "text_input option"
  isNativeAvailable :: bool
  onNativeStatusChange :: "slot option"
  effect_deps :: "(bool \<times> slot option) option"

definition handle_focus :: "wrapper \<Rightarrow> effect" where
  "handle_focus w = opt_chain (textInputRef w) (\<lambda>i. (focus_m i, [UFocus]))"

definition handle_clear :: "wrapper \<Rightarrow> effect" where
  "handle_clear w =
     js_or (opt_chain (textInputRef w) (\<lambda>i. opt_call (clear_m i) UClear))
           (opt_chain (textInputRef w)
              (\<lambda>i. opt_call (setNativeProps_m i) (USetNativeProps ''text'' '''')))"

definition handle_isFocused :: "wrapper \<Rightarrow> effect" where
  "handle_isFocused w =
     js_nullish_or (opt_chain (textInputRef w) (\<lambda>i. (isFocused_m i, [UIsFocused])))
                   (JBool False)"

definition handle_isNativeComponentAvailable :: "wrapper \<Rightarrow> effect" where
  "handle_isNativeComponentAvailable w = (Inr (JBool (isNativeAvailable w)), [])"

section \<open>Reporting availability to the parent\<close>


section \<open>The application state\<close>

text \<open>
  The state hooks and refs of \<open>App\<close>: two texts, two availability flags that start at
  \<open>true\<close>, the refs of the two native wrappers and the refs of the two fallback inputs.
\<close>

record app =
  legacyText :: string
  fabricText :: string
  isLegacyNativeAvailable :: bool
  isFabricNativeAvailable :: bool
  legacyInputRef :: "wrapper option"
  fabricInputRef :: "wrapper option"
  legacyFallbackRef :: "text_input option"
  fabricFallbackRef :: "text_input option"

definition App_init :: app where
  "App_init =
     \<lparr>legacyText = '''', fabricText = '''',
      isLegacyNativeAvailable = True, isFabricNativeAvailable = True,
      legacyInputRef = None, fabricInputRef = None,
      legacyFallbackRef = None, fabricFallbackRef = None\<rparr>"






text \<open>Per-slot views of the state, used to state properties for either slot.\<close>

fun other :: "slot \<Rightarrow> slot" where
  "other Legacy = Fabric"
| "other Fabric = Legacy"

fun slot_text :: "app \<Rightarrow> slot \<Rightarrow> string" where
  "slot_text s Legacy = legacyText s"
| "slot_text s Fabric = fabricText s"

fun native_flag :: "app \<Rightarrow> slot \<Rightarrow> bool" where
  "native_flag s Legacy = isLegacyNativeAvailable s"
| "native_flag s Fabric = isFabricNativeAvailable s"

fun primary_ref :: "app \<Rightarrow> slot \<Rightarrow> wrapper option" where
  "primary_ref s Legacy = legacyInputRef s"
| "primary_ref s Fabric = fabricInputRef s"

fun fallback_ref :: "app \<Rightarrow> slot \<Rightarrow> text_input option" where
  "fallback_ref s Legacy = legacyFallbackRef s"
| "fallback_ref s Fabric = fabricFallbackRef s"



section \<open>Calls through the handles\<close>

datatype handle_kind = Primary | Fallback

datatype handle_call = MFocus | MClear

datatype event = Call slot handle_kind handle_call | Warn string exn

datatype timer_callback = FocusLegacyAfterClear bool

text \<open>
  What running a handler leaves behind: the state after the queued updates, the calls
  made through handles and the warnings logged, in order, the exception that escaped
  the handler (if any) and the timers it scheduled (delay in milliseconds).
\<close>

record run =
  after :: app
  events :: "event list"
  uncaught :: "exn option"
  timers :: "(nat \<times> timer_callback) list"

definition thrown :: "completion \<Rightarrow> exn option" where
  "thrown c = (case c of Inl e \<Rightarrow> Some e | Inr v \<Rightarrow> None)"

text \<open>\<open>ref.current?.focus()\<close> on a wrapper ref and on a fallback ref.\<close>

definition focus_primary :: "slot \<Rightarrow> wrapper option \<Rightarrow> event list \<times> exn option" where
  "focus_primary S cur =
     (case cur of
        None \<Rightarrow> ([], None)
      | Some w \<Rightarrow> ([Call S Primary MFocus], thrown (fst (handle_focus w))))"

definition focus_fallback :: "slot \<Rightarrow> text_input option \<Rightarrow> event list \<times> exn option" where
  "focus_fallback S cur =
     (case cur of
        None \<Rightarrow> ([], None)
      | Some i \<Rightarrow> ([Call S Fallback MFocus], thrown (focus_m i)))"

section \<open>Auto-focus on clearing one input\<close>

text \<open>
  \<^verbatim>\<open>
  const handleLegacyChange = (text: string) => {
    setLegacyText(text);
    if (text === '' && fabricText !== '') {
      if (isFabricNativeAvailable) { fabricInputRef.current?.focus(); }
      else { fabricFallbackRef.current?.focus(); }
    }
  };
  \<close>
  and the same with the two slots exchanged for \<open>handleFabricChange\<close>. No call is
  inside a \<open>try\<close>.
\<close>

definition handleLegacyChange :: "string \<Rightarrow> app \<Rightarrow> run" where
  "handleLegacyChange text s =
     (let s' = s\<lparr>legacyText := text\<rparr> in
      if text = '''' \<and> fabricText s \<noteq> '''' then
        (let (ev, x) =
               (if isFabricNativeAvailable s then focus_primary Fabric (fabricInputRef s)
                else focus_fallback Fabric (fabricFallbackRef s))
         in \<lparr>after = s', events = ev, uncaught = x, timers = []\<rparr>)
      else \<lparr>after = s', events = [], uncaught = None, timers = []\<rparr>)"

definition handleFabricChange :: "string \<Rightarrow> app \<Rightarrow> run" where
  "handleFabricChange text s =
     (let s' = s\<lparr>fabricText := text\<rparr> in
      if text = '''' \<and> legacyText s \<noteq> '''' then
        (let (ev, x) =
               (if isLegacyNativeAvailable s then focus_primary Legacy (legacyInputRef s)
                else focus_fallback Legacy (legacyFallbackRef s))
         in \<lparr>after = s', events = ev, uncaught = x, timers = []\<rparr>)
      else \<lparr>after = s', events = [], uncaught = None, timers = []\<rparr>)"

text \<open>The \<open>onChangeText\<close> prop of each slot's input, native or fallback.\<close>

fun on_text_changed :: "slot \<Rightarrow> string \<Rightarrow> app \<Rightarrow> run" where
  "on_text_changed Legacy text s = handleLegacyChange text s"
| "on_text_changed Fabric text s = handleFabricChange text s"

section \<open>Clearing both inputs\<close>

text \<open>
  \<^verbatim>\<open>
  if (isLegacyNativeAvailable && legacyInputRef.current) {
    try { legacyInputRef.current.clear(); }
    catch (e) { console.warn('Legacy clear failed:', e); }
  } else if (legacyFallbackRef.current) {
    legacyFallbackRef.current.clear();
  }
  \<close>
  and the same for the Fabric slot with its own message. The native branch catches;
  the fallback branch does not, and calling a \<open>clear\<close> that is not there is a
  \<open>TypeError\<close> before any method runs.
\<close>

definition catch_warn :: "string \<Rightarrow> completion \<Rightarrow> event list" where
  "catch_warn msg c = (case c of Inl e \<Rightarrow> [Warn msg e] | Inr v \<Rightarrow> [])"

definition clear_slot ::
  "slot \<Rightarrow> string \<Rightarrow> bool \<Rightarrow> wrapper option \<Rightarrow> text_input option
     \<Rightarrow> event list \<times> exn option" where
  "clear_slot S msg avail prim fb =
     (if avail \<and> prim \<noteq> None then
        (Call S Primary MClear # catch_warn msg (fst (handle_clear (the prim))), None)
      else if fb \<noteq> None then
        (case clear_m (the fb) of
           None \<Rightarrow> ([], Some TypeError)
         | Some r \<Rightarrow> ([Call S Fallback MClear], thrown r))
      else ([], None))"

definition clearLegacy :: "app \<Rightarrow> event list \<times> exn option" where
  "clearLegacy s =
     clear_slot Legacy ''Legacy clear failed:''
       (isLegacyNativeAvailable s) (legacyInputRef s) (legacyFallbackRef s)"

definition clearFabric :: "app \<Rightarrow> event list \<times> exn option" where
  "clearFabric s =
     clear_slot Fabric ''Fabric clear failed:''
       (isFabricNativeAvailable s) (fabricInputRef s) (fabricFallbackRef s)"

text \<open>
  \<open>clearInputs\<close>: queue both text resets, clear the legacy input, clear the Fabric
  input, then \<open>setTimeout(..., 100)\<close> a focus of the legacy input. An exception that
  escapes a step skips the steps after it. The timer's closure keeps the value
  \<open>isLegacyNativeAvailable\<close> had when \<open>clearInputs\<close> ran.
\<close>

definition clearInputs :: "app \<Rightarrow> run" where
  "clearInputs s =
     (let s' = s\<lparr>legacyText := '''', fabricText := ''''\<rparr>;
          (ev1, x1) = clearLegacy s
      in case x1 of
           Some e \<Rightarrow> \<lparr>after = s', events = ev1, uncaught = Some e, timers = []\<rparr>
         | None \<Rightarrow>
             (let (ev2, x2) = clearFabric s
              in case x2 of
                   Some e \<Rightarrow>
                     \<lparr>after = s', events = ev1 @ ev2, uncaught = Some e, timers = []\<rparr>
                 | None \<Rightarrow>
                     \<lparr>after = s', events = ev1 @ ev2, uncaught = None,
                      timers = [(100, FocusLegacyAfterClear (isLegacyNativeAvailable s))]\<rparr>))"

text \<open>
  The timer's callback, run in the state the application has when the timer fires:
  \<^verbatim>\<open>
  if (isLegacyNativeAvailable) { legacyInputRef.current?.focus(); }
  else { legacyFallbackRef.current?.focus(); }
  \<close>
\<close>

fun run_timer :: "timer_callback \<Rightarrow> app \<Rightarrow> run" where
  "run_timer (FocusLegacyAfterClear avail) s =
     (let (ev, x) = (if avail then focus_primary Legacy (legacyInputRef s)
                     else focus_fallback Legacy (legacyFallbackRef s))
      in \<lparr>after = s, events = ev, uncaught = x, timers = []\<rparr>)"

section \<open>Concrete inputs\<close>

text \<open>
  A text input whose methods all return normally, one whose \<open>focus()\<close> and
  \<open>clear()\<close> throw, a wrapper mounted on a given input, and the application with
  both native wrappers mounted and both texts filled.
\<close>

definition plain_input :: text_input where
  "plain_input =
     \<lparr>focus_m = Inr JUndefined, clear_m = Some (Inr JUndefined),
      setNativeProps_m = Some (Inr JUndefined), isFocused_m = Inr (JBool False)\<rparr>"

definition failing_input :: text_input where
  "failing_input =
     \<lparr>focus_m = Inl (NativeError ''focus failed''),
      clear_m = Some (Inl (NativeError ''clear failed'')),
      setNativeProps_m = Some (Inr JUndefined), isFocused_m = Inr (JBool False)\<rparr>"

text \<open>
  A mounted object with \<open>focus\<close>, \<open>isFocused\<close> and \<open>setNativeProps\<close> but no \<open>clear\<close>
  method, the case the \<open>clear?.()\<close> of the handle provides for; and an input whose
  \<open>clear()\<close> returns \<open>true\<close>.
\<close>

definition host_view :: text_input where
  "host_view =
     \<lparr>focus_m = Inr JUndefined, clear_m = None,
      setNativeProps_m = Some (Inr JUndefined), isFocused_m = Inr (JBool False)\<rparr>"

definition truthy_clear_input :: text_input where
  "truthy_clear_input =
     \<lparr>focus_m = Inr JUndefined, clear_m = Some (Inr (JBool True)),
      setNativeProps_m = Some (Inr JUndefined), isFocused_m = Inr (JBool False)\<rparr>"

definition bare_view :: "completion option \<Rightarrow> text_input" where
  "bare_view c =
     \<lparr>focus_m = Inr JUndefined, clear_m = c,
      setNativeProps_m = None, isFocused_m = Inr (JBool False)\<rparr>"

definition mounted_wrapper :: "slot \<Rightarrow> text_input \<Rightarrow> wrapper" where
  "mounted_wrapper S i =
     \<lparr>textInputRef = Some i, isNativeAvailable = True,
      onNativeStatusChange = Some S, effect_deps = Some (True, Some S)\<rparr>"

definition fresh_wrapper :: "slot \<Rightarrow> bool \<Rightarrow> wrapper" where
  "fresh_wrapper S v =
     \<lparr>textInputRef = None, isNativeAvailable = v,
      onNativeStatusChange = Some S, effect_deps = None\<rparr>"

definition both_native :: "text_input \<Rightarrow> text_input \<Rightarrow> app" where
  "both_native il ifa =
     \<lparr>legacyText = ''hello'', fabricText = ''world'',
      isLegacyNativeAvailable = True, isFabricNativeAvailable = True,
      legacyInputRef = Some (mounted_wrapper Legacy il),
      fabricInputRef = Some (mounted_wrapper Fabric ifa),
      legacyFallbackRef = None, fabricFallbackRef = None\<rparr>"

text \<open>
  The legacy native component was not found, so the application shows the legacy
  fallback input; the Fabric wrapper is mounted.
\<close>

definition legacy_on_fallback :: "text_input \<Rightarrow> text_input \<Rightarrow> app" where
  "legacy_on_fallback il ifa =
     \<lparr>legacyText = ''hello'', fabricText = ''world'',
      isLegacyNativeAvailable = False, isFabricNativeAvailable = True,
      legacyInputRef = None,
      fabricInputRef = Some (mounted_wrapper Fabric ifa),
      legacyFallbackRef = Some il, fabricFallbackRef = None\<rparr>"

text \<open>
  The Fabric native component was not found, so the application shows the Fabric
  fallback input; the legacy wrapper is mounted.
\<close>

definition fabric_on_fallback :: "text_input \<Rightarrow> text_input \<Rightarrow> app" where
  "fabric_on_fallback il ifa =
     \<lparr>legacyText = ''hello'', fabricText = ''world'',
      isLegacyNativeAvailable = True, isFabricNativeAvailable = False,
      legacyInputRef = Some (mounted_wrapper Legacy il),
      fabricInputRef = None,
      legacyFallbackRef = None, fabricFallbackRef = Some ifa\<rparr>"

section \<open>Simplification sets\<close>

lemmas handle_defs =
  handle_focus_def handle_clear_def handle_isFocused_def
  handle_isNativeComponentAvailable_def opt_chain_def opt_call_def js_or_def
  js_nullish_or_def

lemmas handler_defs =
  handleLegacyChange_def handleFabricChange_def focus_primary_def focus_fallback_def

lemmas clear_defs =
  clearInputs_def clearLegacy_def clearFabric_def clear_slot_def catch_warn_def
  thrown_def

lemmas fixture_defs =
  plain_input_def failing_input_def mounted_wrapper_def fresh_wrapper_def
  both_native_def legacy_on_fallback_def fabric_on_fallback_def App_init_def
  host_view_def truthy_clear_input_def bare_view_def

section \<open>What each handler leaves behind\<close>

lemma after_handleLegacyChange: "after (handleLegacyChange t s) = s\<lparr>legacyText := t\<rparr>"
  by (simp add: handleLegacyChange_def Let_def split: prod.splits)

lemma after_handleFabricChange: "after (handleFabricChange t s) = s\<lparr>fabricText := t\<rparr>"
  by (simp add: handleFabricChange_def Let_def split: prod.splits)

lemma events_handleLegacyChange:
  "events (handleLegacyChange t s) =
     (if t = [] \<and> fabricText s \<noteq> [] then
        (if isFabricNativeAvailable s then fst (focus_primary Fabric (fabricInputRef s))
         else fst (focus_fallback Fabric (fabricFallbackRef s)))
      else [])"
  by (simp add: handleLegacyChange_def Let_def split: prod.splits)

lemma events_handleFabricChange:
  "events (handleFabricChange t s) =
     (if t = [] \<and> legacyText s \<noteq> [] then
        (if isLegacyNativeAvailable s then fst (focus_primary Legacy (legacyInputRef s))
         else fst (focus_fallback Legacy (legacyFallbackRef s)))
      else [])"
  by (simp add: handleFabricChange_def Let_def split: prod.splits)

lemma uncaught_handleLegacyChange:
  "uncaught (handleLegacyChange t s) =
     (if t = [] \<and> fabricText s \<noteq> [] then
        (if isFabricNativeAvailable s then snd (focus_primary Fabric (fabricInputRef s))
         else snd (focus_fallback Fabric (fabricFallbackRef s)))
      else None)"
  by (simp add: handleLegacyChange_def Let_def split: prod.splits)

lemma uncaught_handleFabricChange:
  "uncaught (handleFabricChange t s) =
     (if t = [] \<and> legacyText s \<noteq> [] then
        (if isLegacyNativeAvailable s then snd (focus_primary Legacy (legacyInputRef s))
         else snd (focus_fallback Legacy (legacyFallbackRef s)))
      else None)"
  by (simp add: handleFabricChange_def Let_def split: prod.splits)

lemmas handler_simps = after_handleLegacyChange after_handleFabricChange
  events_handleLegacyChange events_handleFabricChange
  uncaught_handleLegacyChange uncaught_handleFabricChange

lemma focus_primary_simps:
  "focus_primary S None = ([], None)"
  "focus_primary S (Some w) = ([Call S Primary MFocus], thrown (fst (handle_focus w)))"
  by (simp_all add: focus_primary_def)

lemma focus_fallback_simps:
  "focus_fallback S None = ([], None)"
  "focus_fallback S (Some i) = ([Call S Fallback MFocus], thrown (focus_m i))"
  by (simp_all add: focus_fallback_def)


lemma events_clearInputs:
  "events (clearInputs s) =
     fst (clearLegacy s) @ (if snd (clearLegacy s) = None then fst (clearFabric s) else [])"
  by (simp add: clearInputs_def Let_def split: prod.splits option.splits)

lemma uncaught_clearInputs:
  "uncaught (clearInputs s) =
     (case snd (clearLegacy s) of Some e \<Rightarrow> Some e | None \<Rightarrow> snd (clearFabric s))"
  by (simp add: clearInputs_def Let_def split: prod.splits option.splits)

lemma timers_clearInputs:
  "timers (clearInputs s) =
     (if snd (clearLegacy s) = None \<and> snd (clearFabric s) = None
      then [(100, FocusLegacyAfterClear (isLegacyNativeAvailable s))] else [])"
  by (simp add: clearInputs_def Let_def split: prod.splits option.splits)

lemma clearLegacy_primary:
  "isLegacyNativeAvailable s \<Longrightarrow> legacyInputRef s = Some w \<Longrightarrow>
   clearLegacy s
     = (Call Legacy Primary MClear # catch_warn ''Legacy clear failed:'' (fst (handle_clear w)),
        None)"
  by (simp add: clearLegacy_def clear_slot_def)

lemma clearFabric_primary:
  "isFabricNativeAvailable s \<Longrightarrow> fabricInputRef s = Some w \<Longrightarrow>
   clearFabric s
     = (Call Fabric Primary MClear # catch_warn ''Fabric clear failed:'' (fst (handle_clear w)),
        None)"
  by (simp add: clearFabric_def clear_slot_def)

section \<open>Properties of the imperative handle\<close>

text \<open>
  C10. When the underlying input ref is null, every method of the handle returns
  normally and calls nothing: \<open>focus()\<close> and \<open>clear()\<close> return \<open>undefined\<close>,
  \<open>isFocused()\<close> returns \<open>false\<close>, and \<open>isNativeComponentAvailable()\<close> returns the flag.
\<close>

theorem handle_total_when_unmounted:
  assumes "textInputRef w = None"
  shows "handle_focus w = (Inr JUndefined, [])
       \<and> handle_clear w = (Inr JUndefined, [])
       \<and> handle_isFocused w = (Inr (JBool False), [])
       \<and> handle_isNativeComponentAvailable w = (Inr (JBool (isNativeAvailable w)), [])"
  using assms by (simp add: handle_defs)

theorem handle_total_when_unmounted_witness:
  "textInputRef (fresh_wrapper Legacy True) = None
   \<and> handle_focus (fresh_wrapper Legacy True) = (Inr JUndefined, [])
   \<and> handle_clear (fresh_wrapper Legacy True) = (Inr JUndefined, [])
   \<and> handle_isFocused (fresh_wrapper Legacy True) = (Inr (JBool False), [])
   \<and> handle_isNativeComponentAvailable (fresh_wrapper Legacy True) = (Inr (JBool True), [])"
  using handle_total_when_unmounted [of "fresh_wrapper Legacy True"]
  by (simp add: fresh_wrapper_def)

text \<open>
  C9, as stated, fails: on a mounted object that has no \<open>clear\<close> method, \<open>clear()\<close> on
  the handle calls \<open>setNativeProps({ text: '' })\<close> only; and when the underlying
  \<open>clear()\<close> returns a truthy value, it calls the underlying \<open>clear()\<close> only.
\<close>

theorem handle_clear_single_call_counterexample:
  "textInputRef (mounted_wrapper Legacy host_view) = Some host_view
   \<and> handle_clear (mounted_wrapper Legacy host_view)
       = (Inr JUndefined, [USetNativeProps ''text'' ''''])
   \<and> textInputRef (mounted_wrapper Legacy truthy_clear_input) = Some truthy_clear_input
   \<and> handle_clear (mounted_wrapper Legacy truthy_clear_input) = (Inr (JBool True), [UClear])"
  by (simp add: handle_defs mounted_wrapper_def host_view_def truthy_clear_input_def)

text \<open>
  C9, amended. On a mounted input, \<open>clear()\<close> on the handle calls the underlying
  \<open>clear()\<close> when that method exists, and then \<open>setNativeProps({ text: '' })\<close> when
  that method exists and \<open>clear()\<close> was absent or returned a falsy value. So both are
  called, in that order, when both exist and \<open>clear()\<close> returns \<open>undefined\<close>; only
  \<open>setNativeProps\<close> when there is no \<open>clear\<close>; only \<open>clear()\<close> when it throws or
  returns a truthy value, or when there is no \<open>setNativeProps\<close>; and nothing when
  neither method exists.
\<close>

theorem handle_clear_on_mounted_input:
  "(textInputRef w = Some i \<and> clear_m i = Some (Inr v) \<and> \<not> truthy v
      \<and> setNativeProps_m i = Some r \<longrightarrow>
    handle_clear w = (r, [UClear, USetNativeProps ''text'' '''']))
   \<and> (textInputRef w = Some i \<and> clear_m i = None \<and> setNativeProps_m i = Some r \<longrightarrow>
    handle_clear w = (r, [USetNativeProps ''text'' '''']))
   \<and> (textInputRef w = Some i \<and> clear_m i = Some (Inr v) \<and> truthy v \<longrightarrow>
    handle_clear w = (Inr v, [UClear]))
   \<and> (textInputRef w = Some i \<and> clear_m i = Some (Inl e) \<longrightarrow>
    handle_clear w = (Inl e, [UClear]))
   \<and> (textInputRef w = Some i \<and> clear_m i = Some (Inr v) \<and> \<not> truthy v
      \<and> setNativeProps_m i = None \<longrightarrow>
    handle_clear w = (Inr JUndefined, [UClear]))
   \<and> (textInputRef w = Some i \<and> clear_m i = None \<and> setNativeProps_m i = None \<longrightarrow>
    handle_clear w = (Inr JUndefined, []))"
  by (simp add: handle_defs)

theorem handle_clear_on_mounted_input_witness:
  "textInputRef (mounted_wrapper Legacy plain_input) = Some plain_input
   \<and> clear_m plain_input = Some (Inr JUndefined)
   \<and> \<not> truthy JUndefined
   \<and> setNativeProps_m plain_input = Some (Inr JUndefined)
   \<and> handle_clear (mounted_wrapper Legacy plain_input)
       = (Inr JUndefined, [UClear, USetNativeProps ''text'' ''''])
   \<and> clear_m host_view = None
   \<and> setNativeProps_m host_view = Some (Inr JUndefined)
   \<and> handle_clear (mounted_wrapper Legacy host_view)
       = (Inr JUndefined, [USetNativeProps ''text'' ''''])
   \<and> clear_m truthy_clear_input = Some (Inr (JBool True))
   \<and> truthy (JBool True)
   \<and> handle_clear (mounted_wrapper Legacy truthy_clear_input) = (Inr (JBool True), [UClear])
   \<and> clear_m failing_input = Some (Inl (NativeError ''clear failed''))
   \<and> handle_clear (mounted_wrapper Legacy failing_input)
       = (Inl (NativeError ''clear failed''), [UClear])
   \<and> clear_m (bare_view (Some (Inr JUndefined))) = Some (Inr JUndefined)
   \<and> setNativeProps_m (bare_view (Some (Inr JUndefined))) = None
   \<and> handle_clear (mounted_wrapper Legacy (bare_view (Some (Inr JUndefined))))
       = (Inr JUndefined, [UClear])
   \<and> clear_m (bare_view None) = None
   \<and> setNativeProps_m (bare_view None) = None
   \<and> handle_clear (mounted_wrapper Legacy (bare_view None)) = (Inr JUndefined, [])"
  using handle_clear_on_mounted_input
          [where w = "mounted_wrapper Legacy plain_input" and i = plain_input
             and v = JUndefined and r = "Inr JUndefined"]
        handle_clear_on_mounted_input
          [where w = "mounted_wrapper Legacy host_view" and i = host_view
             and r = "Inr JUndefined"]
        handle_clear_on_mounted_input
          [where w = "mounted_wrapper Legacy truthy_clear_input" and i = truthy_clear_input
             and v = "JBool True"]
        handle_clear_on_mounted_input
          [where w = "mounted_wrapper Legacy failing_input" and i = failing_input
             and e = "NativeError ''clear failed''"]
        handle_clear_on_mounted_input
          [where w = "mounted_wrapper Legacy (bare_view (Some (Inr JUndefined)))"
             and i = "bare_view (Some (Inr JUndefined))" and v = JUndefined]
        handle_clear_on_mounted_input
          [where w = "mounted_wrapper Legacy (bare_view None)" and i = "bare_view None"]
  by (simp add: mounted_wrapper_def plain_input_def host_view_def truthy_clear_input_def
      failing_input_def bare_view_def)

section \<open>Properties of the auto-focus rule\<close>

text \<open>
  C1. Let \<open>A\<close> and \<open>B\<close> be the two slots, \<open>A\<close> with non-empty text and with its
  active input mounted (the native wrapper when \<open>A\<close> is available, the fallback input
  when it is not). Then a change of \<open>B\<close>'s text to the empty string makes exactly one
  call through a handle: \<open>focus()\<close> on \<open>A\<close>'s primary handle when \<open>A\<close> is available, on
  \<open>A\<close>'s fallback handle when it is not.
\<close>

theorem auto_focus_targets_active_handle:
  assumes "A \<noteq> B"
      and "slot_text s A \<noteq> ''''"
      and "if native_flag s A then primary_ref s A \<noteq> None else fallback_ref s A \<noteq> None"
  shows "events (on_text_changed B '''' s)
           = [Call A (if native_flag s A then Primary else Fallback) MFocus]"
  using assms
  by (cases A; cases B) (auto simp: handler_defs split: if_splits)

theorem auto_focus_targets_active_handle_witness:
  "Legacy \<noteq> Fabric
   \<and> slot_text (both_native plain_input plain_input) Legacy \<noteq> ''''
   \<and> native_flag (both_native plain_input plain_input) Legacy
   \<and> primary_ref (both_native plain_input plain_input) Legacy \<noteq> None
   \<and> events (on_text_changed Fabric '''' (both_native plain_input plain_input))
        = [Call Legacy Primary MFocus]
   \<and> slot_text (legacy_on_fallback plain_input plain_input) Legacy \<noteq> ''''
   \<and> \<not> native_flag (legacy_on_fallback plain_input plain_input) Legacy
   \<and> fallback_ref (legacy_on_fallback plain_input plain_input) Legacy \<noteq> None
   \<and> events (on_text_changed Fabric '''' (legacy_on_fallback plain_input plain_input))
        = [Call Legacy Fallback MFocus]"
  using auto_focus_targets_active_handle
          [of Legacy Fabric "both_native plain_input plain_input"]
        auto_focus_targets_active_handle
          [of Legacy Fabric "legacy_on_fallback plain_input plain_input"]
  by (simp add: both_native_def legacy_on_fallback_def)

section \<open>Properties of clearing both inputs\<close>

text \<open>
  C2. The legacy slot is on its fallback input and that input's \<open>clear()\<close> throws; the
  Fabric wrapper is mounted and available. \<open>clearInputs\<close> calls \<open>clear()\<close> on the legacy
  fallback only: the exception escapes, \<open>clear()\<close> is never called on the Fabric handle
  and no deferred focus is scheduled.
\<close>

theorem clearInputs_fallback_clear_aborts:
  "events (clearInputs (legacy_on_fallback failing_input plain_input))
     = [Call Legacy Fallback MClear]
   \<and> uncaught (clearInputs (legacy_on_fallback failing_input plain_input))
     = Some (NativeError ''clear failed'')
   \<and> timers (clearInputs (legacy_on_fallback failing_input plain_input)) = []
   \<and> isFabricNativeAvailable (legacy_on_fallback failing_input plain_input)
   \<and> fabricInputRef (legacy_on_fallback failing_input plain_input)
     = Some (mounted_wrapper Fabric plain_input)"
  by (simp add: clear_defs legacy_on_fallback_def failing_input_def)

text \<open>
  C3, as stated, fails: an exception thrown by \<open>focus()\<close> on the target handle escapes
  \<open>on_text_changed\<close>. Here the Fabric input's \<open>focus()\<close> throws while the legacy input
  is cleared.
\<close>

theorem focus_exception_escapes_counterexample:
  "uncaught (on_text_changed Legacy '''' (both_native plain_input failing_input))
     = Some (NativeError ''focus failed'')"
  by (simp add: handler_defs handle_defs thrown_def fixture_defs)

text \<open>
  C3, amended. In \<open>clearInputs\<close> an exception thrown by \<open>clear()\<close> on a slot's native
  (primary) handle is caught and logged as a warning, and the steps after it run as if
  the call had returned: with the legacy slot on its native handle the Fabric step runs
  in full, only it can raise, and the deferred focus is scheduled unless it does; with
  the Fabric slot on its native handle, once the
  legacy step is over, nothing is raised and the deferred focus is scheduled. An
  exception thrown by \<open>focus()\<close> on the target's handle, native or fallback, in
  \<open>on_text_changed\<close> is not caught: it reaches the caller, after the text update was
  queued.
\<close>

theorem native_clear_caught_focus_not:
  "(isLegacyNativeAvailable s \<and> legacyInputRef s = Some lw \<longrightarrow>
      events (clearInputs s)
        = Call Legacy Primary MClear
          # catch_warn ''Legacy clear failed:'' (fst (handle_clear lw))
          @ fst (clearFabric s)
    \<and> uncaught (clearInputs s) = snd (clearFabric s)
    \<and> timers (clearInputs s)
        = (if snd (clearFabric s) = None then [(100, FocusLegacyAfterClear True)] else []))
   \<and> (isFabricNativeAvailable s \<and> fabricInputRef s = Some fw
        \<and> snd (clearLegacy s) = None \<longrightarrow>
      events (clearInputs s)
        = fst (clearLegacy s)
          @ Call Fabric Primary MClear
          # catch_warn ''Fabric clear failed:'' (fst (handle_clear fw))
    \<and> uncaught (clearInputs s) = None
    \<and> timers (clearInputs s) = [(100, FocusLegacyAfterClear (isLegacyNativeAvailable s))])
   \<and> (native_flag s A \<and> primary_ref s A = Some w \<and> slot_text s A \<noteq> ''''
        \<and> fst (handle_focus w) = Inl e \<longrightarrow>
      uncaught (on_text_changed (other A) '''' s) = Some e
    \<and> slot_text (after (on_text_changed (other A) '''' s)) (other A) = '''')
   \<and> (\<not> native_flag s A \<and> fallback_ref s A = Some i \<and> slot_text s A \<noteq> ''''
        \<and> focus_m i = Inl e \<longrightarrow>
      uncaught (on_text_changed (other A) '''' s) = Some e
    \<and> slot_text (after (on_text_changed (other A) '''' s)) (other A) = '''')"
proof (intro conjI impI)
  assume h: "isLegacyNativeAvailable s \<and> legacyInputRef s = Some lw"
  then have c: "clearLegacy s
     = (Call Legacy Primary MClear # catch_warn ''Legacy clear failed:'' (fst (handle_clear lw)),
        None)"
    by (simp add: clearLegacy_primary)
  show "events (clearInputs s)
        = Call Legacy Primary MClear
          # catch_warn ''Legacy clear failed:'' (fst (handle_clear lw))
          @ fst (clearFabric s)"
    by (simp add: events_clearInputs c)
  show "uncaught (clearInputs s) = snd (clearFabric s)"
    by (simp add: uncaught_clearInputs c)
  show "timers (clearInputs s)
        = (if snd (clearFabric s) = None then [(100, FocusLegacyAfterClear True)] else [])"
    using h by (simp add: timers_clearInputs c)
next
  assume h: "isFabricNativeAvailable s \<and> fabricInputRef s = Some fw
        \<and> snd (clearLegacy s) = None"
  then have c: "clearFabric s
     = (Call Fabric Primary MClear # catch_warn ''Fabric clear failed:'' (fst (handle_clear fw)),
        None)"
    by (simp add: clearFabric_primary)
  show "events (clearInputs s)
        = fst (clearLegacy s)
          @ Call Fabric Primary MClear
          # catch_warn ''Fabric clear failed:'' (fst (handle_clear fw))"
    using h by (simp add: events_clearInputs c)
  show "uncaught (clearInputs s) = None"
    using h by (simp add: uncaught_clearInputs c)
  show "timers (clearInputs s) = [(100, FocusLegacyAfterClear (isLegacyNativeAvailable s))]"
    using h by (simp add: timers_clearInputs c)
next
  assume h: "native_flag s A \<and> primary_ref s A = Some w \<and> slot_text s A \<noteq> ''''
        \<and> fst (handle_focus w) = Inl e"
  then show "uncaught (on_text_changed (other A) '''' s) = Some e"
    by (cases A) (simp_all add: handler_simps focus_primary_simps thrown_def)
  show "slot_text (after (on_text_changed (other A) '''' s)) (other A) = ''''"
    by (cases A) (simp_all add: handler_simps)
next
  assume h: "\<not> native_flag s A \<and> fallback_ref s A = Some i \<and> slot_text s A \<noteq> ''''
        \<and> focus_m i = Inl e"
  then show "uncaught (on_text_changed (other A) '''' s) = Some e"
    by (cases A) (simp_all add: handler_simps focus_fallback_simps thrown_def)
  show "slot_text (after (on_text_changed (other A) '''' s)) (other A) = ''''"
    by (cases A) (simp_all add: handler_simps)
qed

theorem native_clear_caught_focus_not_witness:
  "isLegacyNativeAvailable (both_native failing_input failing_input)
   \<and> legacyInputRef (both_native failing_input failing_input)
       = Some (mounted_wrapper Legacy failing_input)
   \<and> isFabricNativeAvailable (both_native failing_input failing_input)
   \<and> fabricInputRef (both_native failing_input failing_input)
       = Some (mounted_wrapper Fabric failing_input)
   \<and> snd (clearLegacy (both_native failing_input failing_input)) = None
   \<and> events (clearInputs (both_native failing_input failing_input))
       = [Call Legacy Primary MClear,
          Warn ''Legacy clear failed:'' (NativeError ''clear failed''),
          Call Fabric Primary MClear,
          Warn ''Fabric clear failed:'' (NativeError ''clear failed'')]
   \<and> uncaught (clearInputs (both_native failing_input failing_input)) = None
   \<and> timers (clearInputs (both_native failing_input failing_input))
       = [(100, FocusLegacyAfterClear True)]
   \<and> slot_text (both_native failing_input failing_input) Fabric \<noteq> ''''
   \<and> fst (handle_focus (mounted_wrapper Fabric failing_input))
       = Inl (NativeError ''focus failed'')
   \<and> uncaught (on_text_changed Legacy '''' (both_native failing_input failing_input))
       = Some (NativeError ''focus failed'')
   \<and> slot_text (after (on_text_changed Legacy '''' (both_native failing_input failing_input)))
         Legacy = ''''
   \<and> \<not> native_flag (legacy_on_fallback failing_input plain_input) Legacy
   \<and> fallback_ref (legacy_on_fallback failing_input plain_input) Legacy = Some failing_input
   \<and> slot_text (legacy_on_fallback failing_input plain_input) Legacy \<noteq> ''''
   \<and> focus_m failing_input = Inl (NativeError ''focus failed'')
   \<and> uncaught (on_text_changed Fabric '''' (legacy_on_fallback failing_input plain_input))
       = Some (NativeError ''focus failed'')
   \<and> isLegacyNativeAvailable (fabric_on_fallback failing_input plain_input)
   \<and> legacyInputRef (fabric_on_fallback failing_input plain_input)
       = Some (mounted_wrapper Legacy failing_input)
   \<and> events (clearInputs (fabric_on_fallback failing_input plain_input))
       = [Call Legacy Primary MClear,
          Warn ''Legacy clear failed:'' (NativeError ''clear failed''),
          Call Fabric Fallback MClear]
   \<and> uncaught (clearInputs (fabric_on_fallback failing_input plain_input)) = None
   \<and> timers (clearInputs (fabric_on_fallback failing_input plain_input))
       = [(100, FocusLegacyAfterClear True)]"
  using native_clear_caught_focus_not
          [of "both_native failing_input failing_input"
              "mounted_wrapper Legacy failing_input"
              "mounted_wrapper Fabric failing_input"
              Fabric
              "mounted_wrapper Fabric failing_input"
              "NativeError ''focus failed''"
              failing_input]
        native_clear_caught_focus_not
          [of "legacy_on_fallback failing_input plain_input"
              "mounted_wrapper Legacy failing_input"
              "mounted_wrapper Fabric plain_input"
              Legacy
              "mounted_wrapper Legacy failing_input"
              "NativeError ''focus failed''"
              failing_input]
        native_clear_caught_focus_not
          [of "fabric_on_fallback failing_input plain_input"
              "mounted_wrapper Legacy failing_input"
              "mounted_wrapper Fabric plain_input"
              Legacy
              "mounted_wrapper Legacy failing_input"
              "NativeError ''focus failed''"
              failing_input]
  by (simp add: fixture_defs clearLegacy_def clearFabric_def clear_slot_def catch_warn_def
      thrown_def handle_defs)

text \<open>
  C7. Whatever timer \<open>clearInputs\<close> scheduled, if the legacy slot is unmounted when
  the timer fires (both of its refs are null), the callback calls through no handle,
  raises nothing and leaves the state as it is.
\<close>

theorem stale_deferred_focus_is_noop:
  assumes "(d, cb) \<in> set (timers (clearInputs s))"
      and "legacyInputRef s' = None"
      and "legacyFallbackRef s' = None"
  shows "events (run_timer cb s') = [] \<and> uncaught (run_timer cb s') = None
       \<and> after (run_timer cb s') = s'"
  using assms
  by (cases cb) (simp add: focus_primary_def focus_fallback_def)

theorem stale_deferred_focus_is_noop_witness:
  "(100, FocusLegacyAfterClear True)
     \<in> set (timers (clearInputs (both_native plain_input plain_input)))
   \<and> legacyInputRef App_init = None
   \<and> legacyFallbackRef App_init = None
   \<and> events (run_timer (FocusLegacyAfterClear True) App_init) = []
   \<and> uncaught (run_timer (FocusLegacyAfterClear True) App_init) = None
   \<and> after (run_timer (FocusLegacyAfterClear True) App_init) = App_init"
  using stale_deferred_focus_is_noop
          [of 100 "FocusLegacyAfterClear True" "both_native plain_input plain_input" App_init]
  by (simp add: fixture_defs clear_defs handle_defs)

section \<open>Properties of the auto-focus rule under repetition\<close>

text \<open>
  C4, as stated, fails: with the Fabric text non-empty, a second change of the legacy
  text to the empty string issues a second focus command.
\<close>

theorem repeated_empty_text_refocuses_counterexample:
  "events (on_text_changed Legacy '''' (both_native plain_input plain_input))
     = [Call Fabric Primary MFocus]
   \<and> events (on_text_changed Legacy ''''
        (after (on_text_changed Legacy '''' (both_native plain_input plain_input))))
     = [Call Fabric Primary MFocus]"
  by (simp add: handler_simps focus_primary_simps both_native_def)

text \<open>
  C4, amended. The rule looks at the text of the event and at the other slot's text,
  never at the slot's own previous text. With a non-empty \<open>t\<close> no call of
  \<open>on_text_changed(S, t)\<close> issues a focus command. With the empty text, while the other
  slot's text is non-empty and its active input is mounted, the first call and its
  repetition each issue one focus command to the other slot's active handle. In every
  case a repetition issues the same calls as the first call.
\<close>

theorem auto_focus_ignores_previous_text:
  "events (on_text_changed S t (after (on_text_changed S t s)))
     = events (on_text_changed S t s)
   \<and> (t \<noteq> '''' \<longrightarrow> events (on_text_changed S t s) = [])
   \<and> (slot_text s (other S) \<noteq> ''''
        \<and> (if native_flag s (other S) then primary_ref s (other S) \<noteq> None
            else fallback_ref s (other S) \<noteq> None) \<longrightarrow>
      events (on_text_changed S '''' s)
        = [Call (other S) (if native_flag s (other S) then Primary else Fallback) MFocus]
    \<and> events (on_text_changed S '''' (after (on_text_changed S '''' s)))
        = [Call (other S) (if native_flag s (other S) then Primary else Fallback) MFocus])"
proof (intro conjI impI)
  show "events (on_text_changed S t (after (on_text_changed S t s)))
          = events (on_text_changed S t s)"
    by (cases S) (simp_all add: handler_simps)
next
  assume "t \<noteq> ''''"
  then show "events (on_text_changed S t s) = []"
    by (cases S) (simp_all add: handler_simps)
next
  assume h: "slot_text s (other S) \<noteq> ''''
        \<and> (if native_flag s (other S) then primary_ref s (other S) \<noteq> None
            else fallback_ref s (other S) \<noteq> None)"
  then show first: "events (on_text_changed S '''' s)
        = [Call (other S) (if native_flag s (other S) then Primary else Fallback) MFocus]"
    by (cases S)
       (auto simp: handler_simps focus_primary_simps focus_fallback_simps split: if_splits)
  have "events (on_text_changed S '''' (after (on_text_changed S '''' s)))
          = events (on_text_changed S '''' s)"
    by (cases S) (simp_all add: handler_simps)
  with first show "events (on_text_changed S '''' (after (on_text_changed S '''' s)))
        = [Call (other S) (if native_flag s (other S) then Primary else Fallback) MFocus]"
    by simp
qed

theorem auto_focus_ignores_previous_text_witness:
  "events (on_text_changed Fabric ''hi''
        (after (on_text_changed Fabric ''hi'' (both_native plain_input plain_input))))
     = events (on_text_changed Fabric ''hi'' (both_native plain_input plain_input))
   \<and> ''hi'' \<noteq> ''''
   \<and> events (on_text_changed Fabric ''hi'' (both_native plain_input plain_input)) = []
   \<and> slot_text (both_native plain_input plain_input) (other Legacy) \<noteq> ''''
   \<and> native_flag (both_native plain_input plain_input) (other Legacy)
   \<and> primary_ref (both_native plain_input plain_input) (other Legacy) \<noteq> None
   \<and> events (on_text_changed Legacy '''' (both_native plain_input plain_input))
       = [Call Fabric Primary MFocus]
   \<and> events (on_text_changed Legacy ''''
         (after (on_text_changed Legacy '''' (both_native plain_input plain_input))))
       = [Call Fabric Primary MFocus]
   \<and> slot_text (legacy_on_fallback plain_input plain_input) (other Fabric) \<noteq> ''''
   \<and> \<not> native_flag (legacy_on_fallback plain_input plain_input) (other Fabric)
   \<and> fallback_ref (legacy_on_fallback plain_input plain_input) (other Fabric) \<noteq> None
   \<and> events (on_text_changed Fabric '''' (legacy_on_fallback plain_input plain_input))
       = [Call Legacy Fallback MFocus]
   \<and> events (on_text_changed Fabric ''''
         (after (on_text_changed Fabric '''' (legacy_on_fallback plain_input plain_input))))
       = [Call Legacy Fallback MFocus]"
  using auto_focus_ignores_previous_text
          [of Fabric "''hi''" "both_native plain_input plain_input"]
        auto_focus_ignores_previous_text
          [of Legacy "[]" "both_native plain_input plain_input"]
        auto_focus_ignores_previous_text
          [of Fabric "[]" "legacy_on_fallback plain_input plain_input"]
  by (simp add: both_native_def legacy_on_fallback_def)

section \<open>Properties of the availability flags\<close>







end
